theory Spec2Isabelle
  imports Complex_Main "HOL-Library.Char_ord" "HOL-Library.List_Lexorder" "HOL-Library.Multiset"
begin

section \<open>Values and errors\<close>

text \<open>
  The exceptions of \<^verbatim>\<open>finance_tracker.py\<close> that the model distinguishes.
  \<^verbatim>\<open>load_data\<close> catches \<open>JSONDecodeError\<close> and \<open>KeyError\<close> only; in
  particular it does not catch the other subclasses of \<open>ValueError\<close>.
\<close>

datatype error =
    JSONDecodeError
  | KeyError
  | TypeError
  | AttributeError
  | ValueError
  | UnicodeDecodeError
  | RecursionError
  | OSError

text \<open>
  What \<^verbatim>\<open>json.load\<close> returns: Python values built from JSON. An object is a
  \<^verbatim>\<open>dict\<close> with string keys, kept as an association list in insertion order.
  Floats are modelled as reals (rounding, NaN and infinities are outside the model).
\<close>

datatype json =
    JNull
  | JBool bool
  | JInt int
  | JFloat real
  | JString string
  | JArray "json list"
  | JObject "(string \<times> json) list"

text \<open>
  The persistence file as \<^verbatim>\<open>load_data\<close> sees it. Either \<^verbatim>\<open>os.path.exists\<close> is
  false; or \<^verbatim>\<open>open\<close> or \<^verbatim>\<open>json.load\<close> raises; or \<^verbatim>\<open>json.load\<close> returns a
  value. Reading raises \<open>JSONDecodeError\<close> when the text is not JSON,
  \<open>UnicodeDecodeError\<close> when the bytes are not text in the encoding,
  \<open>ValueError\<close> when an integer literal is longer than the digit limit,
  \<open>RecursionError\<close> when the nesting is too deep, and \<open>OSError\<close> when the path
  cannot be opened for reading.
\<close>

datatype data_file = Absent | Unreadable error | Document json

text \<open>
  An outcome of code that builds typed data from a JSON value. \<open>Untyped\<close> stands for
  a normal return whose value lies outside the annotated field types
  (\<^verbatim>\<open>category: str\<close>, \<^verbatim>\<open>date: str\<close>, an integer \<^verbatim>\<open>id\<close>): Python stores
  such a value unchecked, and no record of the model represents it.
\<close>

datatype 'a outcome = Returned 'a | Raised error | Untyped

section \<open>Strings\<close>

text \<open>
  \<^verbatim>\<open>str.lower\<close> on the ASCII letters; other bytes are left as they are.
  Strings compare lexicographically by character, as Python's do.
\<close>

definition lower_char :: "char \<Rightarrow> char" where
  "lower_char c =
     (if CHR ''A'' \<le> c \<and> c \<le> CHR ''Z'' then char_of (of_char c + (32::nat)) else c)"

definition lower :: "string \<Rightarrow> string" where
  "lower s = map lower_char s"

text \<open>Python truthiness of a value, as in \<^verbatim>\<open>date or ...\<close>.\<close>

fun truthy :: "json \<Rightarrow> bool" where
  "truthy JNull = False"
| "truthy (JBool b) = b"
| "truthy (JInt i) = (i \<noteq> 0)"
| "truthy (JFloat r) = (r \<noteq> 0)"
| "truthy (JString s) = (s \<noteq> [])"
| "truthy (JArray xs) = (xs \<noteq> [])"
| "truthy (JObject kvs) = (kvs \<noteq> [])"

text \<open>\<^verbatim>\<open>abs(x)\<close>: defined on numbers (a bool is an int), \<open>TypeError\<close> otherwise.\<close>

fun py_abs :: "json \<Rightarrow> error + real" where
  "py_abs (JInt i) = Inr (real_of_int \<bar>i\<bar>)"
| "py_abs (JFloat r) = Inr \<bar>r\<bar>"
| "py_abs (JBool b) = Inr (if b then 1 else 0)"
| "py_abs _ = Inl TypeError"

section \<open>The clock\<close>

text \<open>
  \<^verbatim>\<open>datetime.now()\<close> is an input of the model: \<open>timestamp\<close> is
  \<^verbatim>\<open>datetime.now().timestamp()\<close> and \<open>days_ago n\<close> is
  \<^verbatim>\<open>(datetime.now() - timedelta(days=n)).strftime("%Y-%m-%d")\<close>.
  One reading serves a whole operation.
\<close>

record clock =
  timestamp :: real
  days_ago :: "nat \<Rightarrow> string"

definition today :: "clock \<Rightarrow> string" where
  "today c = days_ago c 0"

section \<open>Transaction\<close>

record Transaction =
  id :: int
  amount :: real
  category :: string
  description :: string
  transaction_type :: string
  date :: string

text \<open>\<^verbatim>\<open>int(x)\<close> on a float truncates towards zero.\<close>

definition py_int :: "real \<Rightarrow> int" where
  "py_int x = (if 0 \<le> x then \<lfloor>x\<rfloor> else \<lceil>x\<rceil>)"

definition generate_id :: "clock \<Rightarrow> int" where
  "generate_id c = py_int (timestamp c * 1000000) mod 1000000"

text \<open>\<^verbatim>\<open>Transaction.__init__\<close>; \<open>None\<close> and the empty string are the falsy dates.\<close>

definition Transaction_init ::
  "clock \<Rightarrow> real \<Rightarrow> string \<Rightarrow> string \<Rightarrow> string \<Rightarrow> string option \<Rightarrow> Transaction" where
  "Transaction_init c amt cat descr ttype dt =
     \<lparr> id = generate_id c,
       amount = \<bar>amt\<bar>,
       category = cat,
       description = descr,
       transaction_type = lower ttype,
       date = (case dt of None \<Rightarrow> today c | Some d \<Rightarrow> if d = [] then today c else d) \<rparr>"

definition to_dict :: "Transaction \<Rightarrow> json" where
  "to_dict t = JObject
     [(''id'', JInt (id t)),
      (''amount'', JFloat (amount t)),
      (''category'', JString (category t)),
      (''description'', JString (description t)),
      (''type'', JString (transaction_type t)),
      (''date'', JString (date t))]"

text \<open>\<^verbatim>\<open>data[key]\<close>: a dict is looked up, any other JSON value raises \<open>TypeError\<close>.\<close>

fun subscript :: "json \<Rightarrow> string \<Rightarrow> error + json" where
  "subscript (JObject kvs) k = (case map_of kvs k of None \<Rightarrow> Inl KeyError | Some v \<Rightarrow> Inr v)"
| "subscript _ k = Inl TypeError"

text \<open>Sequencing: an exception ends the computation.\<close>

definition attempt :: "error + 'a \<Rightarrow> ('a \<Rightarrow> 'b outcome) \<Rightarrow> 'b outcome" where
  "attempt r f = (case r of Inl e \<Rightarrow> Raised e | Inr v \<Rightarrow> f v)"

text \<open>A value read at its annotated type; \<open>None\<close> when it has another type.\<close>

fun as_str :: "json \<Rightarrow> string option" where
  "as_str (JString s) = Some s"
| "as_str _ = None"

fun as_int :: "json \<Rightarrow> int option" where
  "as_int (JInt n) = Some n"
| "as_int _ = None"

text \<open>
  The \<^verbatim>\<open>date\<close> argument as the constructor uses it in \<^verbatim>\<open>date or now\<close>:
  a falsy value of any type is replaced by the current date, a truthy one is stored.
\<close>

definition date_arg :: "json \<Rightarrow> string option option" where
  "date_arg dt = (if truthy dt then map_option Some (as_str dt) else Some None)"

text \<open>
  \<^verbatim>\<open>Transaction.from_dict\<close>. The five arguments of the constructor call are
  evaluated first, in the order written; then the constructor runs (\<^verbatim>\<open>abs\<close>, then
  \<^verbatim>\<open>.lower()\<close>, then the date default); then \<^verbatim>\<open>data['id']\<close> is read.
\<close>

definition typed_transaction ::
  "clock \<Rightarrow> real \<Rightarrow> string \<Rightarrow> json \<Rightarrow> json \<Rightarrow> json \<Rightarrow> json \<Rightarrow> Transaction outcome" where
  "typed_transaction c amt ttype i cat descr dt =
     (case as_int i of None \<Rightarrow> Untyped | Some n \<Rightarrow>
       (case as_str cat of None \<Rightarrow> Untyped | Some cs \<Rightarrow>
         (case as_str descr of None \<Rightarrow> Untyped | Some ds \<Rightarrow>
           (case date_arg dt of None \<Rightarrow> Untyped | Some d \<Rightarrow>
              Returned ((Transaction_init c amt cs ds ttype d)\<lparr>id := n\<rparr>)))))"

definition from_dict :: "clock \<Rightarrow> json \<Rightarrow> Transaction outcome" where
  "from_dict c data =
     attempt (subscript data ''amount'') (\<lambda>a.
     attempt (subscript data ''category'') (\<lambda>cat.
     attempt (subscript data ''description'') (\<lambda>descr.
     attempt (subscript data ''type'') (\<lambda>ty.
     attempt (subscript data ''date'') (\<lambda>dt.
     attempt (py_abs a) (\<lambda>amt.
     attempt (case ty of JString s \<Rightarrow> Inr s | _ \<Rightarrow> Inl AttributeError) (\<lambda>ttype.
     attempt (subscript data ''id'') (\<lambda>i.
       typed_transaction c amt ttype i cat descr dt))))))))"

section \<open>FinanceTracker: the store\<close>

text \<open>
  \<^verbatim>\<open>self.categories\<close> is a dict with exactly the keys \<^verbatim>\<open>'income'\<close> and
  \<^verbatim>\<open>'expense'\<close>, each holding a list.
\<close>

record vocabulary =
  income :: "string list"
  expense :: "string list"

record store =
  transactions :: "Transaction list"
  categories :: vocabulary

definition has_key :: "string \<Rightarrow> bool" where
  "has_key k = (k = ''income'' \<or> k = ''expense'')"

text \<open>\<^verbatim>\<open>self.categories[k]\<close>, read and assigned, at a key that \<open>has_key\<close> admits.\<close>

definition cats_of :: "vocabulary \<Rightarrow> string \<Rightarrow> string list" where
  "cats_of v k = (if k = ''income'' then income v else expense v)"

definition set_cats :: "string \<Rightarrow> string list \<Rightarrow> vocabulary \<Rightarrow> vocabulary" where
  "set_cats k xs v = (if k = ''income'' then v\<lparr>income := xs\<rparr> else v\<lparr>expense := xs\<rparr>)"

definition default_income :: "string list" where
  "default_income = [''Salary'', ''Freelance'', ''Investment'', ''Gift'', ''Other Income'']"

definition default_expense :: "string list" where
  "default_expense = [''Food'', ''Transportation'', ''Entertainment'', ''Bills'', ''Shopping'',
     ''Healthcare'', ''Education'', ''Travel'', ''Other Expense'']"

text \<open>The state \<^verbatim>\<open>__init__\<close> sets up before it calls \<^verbatim>\<open>load_data\<close>.\<close>

definition initial_store :: store where
  "initial_store =
     \<lparr> transactions = [],
       categories = \<lparr> income = default_income, expense = default_expense \<rparr> \<rparr>"

subsection \<open>The persistence file\<close>

text \<open>
  The file named by \<^verbatim>\<open>self.data_file\<close>: what it holds, and how many times it has been
  rewritten (each \<^verbatim>\<open>save_data\<close> opens it for writing once).
\<close>

record disk =
  content :: data_file
  writes :: nat

definition store_to_json :: "store \<Rightarrow> json" where
  "store_to_json s = JObject
     [(''transactions'', JArray (map to_dict (transactions s))),
      (''categories'', JObject
         [(''income'', JArray (map JString (income (categories s)))),
          (''expense'', JArray (map JString (expense (categories s))))])]"

definition save_data :: "store \<Rightarrow> disk \<Rightarrow> disk" where
  "save_data s d = \<lparr> content = Document (store_to_json s), writes = Suc (writes d) \<rparr>"

subsection \<open>load\_data\<close>

text \<open>\<^verbatim>\<open>data.get(key, default)\<close>: only a dict has the method.\<close>

fun dict_get :: "json \<Rightarrow> string \<Rightarrow> json \<Rightarrow> error + json" where
  "dict_get (JObject kvs) k dflt = Inr (case map_of kvs k of None \<Rightarrow> dflt | Some v \<Rightarrow> v)"
| "dict_get _ k dflt = Inl AttributeError"

text \<open>
  \<^verbatim>\<open>for t in v\<close>: a list yields its items, a string its characters, a dict its keys;
  nothing else is iterable.
\<close>

fun iterate :: "json \<Rightarrow> error + json list" where
  "iterate (JArray xs) = Inr xs"
| "iterate (JString s) = Inr (map (\<lambda>ch. JString [ch]) s)"
| "iterate (JObject kvs) = Inr (map (\<lambda>kv. JString (fst kv)) kvs)"
| "iterate _ = Inl TypeError"

text \<open>\<^verbatim>\<open>v.items()\<close>: only a dict has the method.\<close>

fun dict_items :: "json \<Rightarrow> error + (string \<times> json) list" where
  "dict_items (JObject kvs) = Inr kvs"
| "dict_items _ = Inl AttributeError"

text \<open>
  \<^verbatim>\<open>[Transaction.from_dict(t) for t in ...]\<close>: the first item that raises ends the
  comprehension. An item outside the annotated types does not: the later items are
  still visited, and any of them may raise.
\<close>

fun from_dicts :: "clock \<Rightarrow> json list \<Rightarrow> Transaction list outcome" where
  "from_dicts c [] = Returned []"
| "from_dicts c (j # js) =
     (case from_dict c j of
        Raised e \<Rightarrow> Raised e
      | Untyped \<Rightarrow> (case from_dicts c js of Raised e \<Rightarrow> Raised e | _ \<Rightarrow> Untyped)
      | Returned t \<Rightarrow>
          (case from_dicts c js of
             Raised e \<Rightarrow> Raised e
           | Untyped \<Rightarrow> Untyped
           | Returned ts \<Rightarrow> Returned (t # ts)))"

text \<open>A list or a dict is unhashable: \<^verbatim>\<open>set(...)\<close> raises \<open>TypeError\<close> on it.\<close>

fun hashable :: "json \<Rightarrow> bool" where
  "hashable (JArray xs) = False"
| "hashable (JObject kvs) = False"
| "hashable _ = True"

text \<open>
  \<^verbatim>\<open>list(set(self.categories[cat_type] + cats))\<close>. The order in which a Python set
  is listed is not determined by the source; \<open>remdups\<close> fixes one, and the theorems
  speak about the elements only.
\<close>

definition merge_categories :: "string list \<Rightarrow> json \<Rightarrow> string list outcome" where
  "merge_categories old cats =
     (case cats of
        JArray xs \<Rightarrow>
          (if list_all hashable xs
           then (case those (map as_str xs) of
                   None \<Rightarrow> Untyped
                 | Some ss \<Rightarrow> Returned (remdups (old @ ss)))
           else Raised TypeError)
      | _ \<Rightarrow> Raised TypeError)"

text \<open>\<^verbatim>\<open>for cat_type, cats in file_categories.items(): if cat_type in self.categories: ...\<close>\<close>

fun merge_items :: "(string \<times> json) list \<Rightarrow> vocabulary \<Rightarrow> vocabulary outcome" where
  "merge_items [] v = Returned v"
| "merge_items ((k, cats) # rest) v =
     (if has_key k
      then (case merge_categories (cats_of v k) cats of
              Raised e \<Rightarrow> Raised e
            | Untyped \<Rightarrow> (case merge_items rest v of Raised e \<Rightarrow> Raised e | _ \<Rightarrow> Untyped)
            | Returned xs \<Rightarrow> merge_items rest (set_cats k xs v))
      else merge_items rest v)"

definition load_categories :: "json \<Rightarrow> vocabulary \<Rightarrow> vocabulary outcome" where
  "load_categories data v =
     attempt (dict_get data ''categories'' (JObject [])) (\<lambda>file_categories.
     attempt (dict_items file_categories) (\<lambda>kvs. merge_items kvs v))"

text \<open>The body of the \<^verbatim>\<open>try\<close> block, after \<^verbatim>\<open>json.load\<close> has returned \<open>data\<close>.\<close>

definition load_document :: "clock \<Rightarrow> store \<Rightarrow> json \<Rightarrow> store outcome" where
  "load_document c s data =
     attempt (dict_get data ''transactions'' (JArray [])) (\<lambda>tv.
     attempt (iterate tv) (\<lambda>items.
       (case from_dicts c items of
          Raised e \<Rightarrow> Raised e
        | Untyped \<Rightarrow>
            (case load_categories data (categories s) of Raised e \<Rightarrow> Raised e | _ \<Rightarrow> Untyped)
        | Returned ts \<Rightarrow>
            (case load_categories data (categories s) of
               Raised e \<Rightarrow> Raised e
             | Untyped \<Rightarrow> Untyped
             | Returned v \<Rightarrow> Returned \<lparr> transactions = ts, categories = v \<rparr>))))"

text \<open>
  \<^verbatim>\<open>load_data\<close>. The result is the store and the error that was printed, if any.
  The handler catches \<open>JSONDecodeError\<close> and \<open>KeyError\<close>; both can only be raised
  before \<^verbatim>\<open>self.transactions\<close> is assigned, so the store is then the one the call
  started with. Any other exception leaves the method.
\<close>

definition load_data :: "clock \<Rightarrow> store \<Rightarrow> data_file \<Rightarrow> (store \<times> error option) outcome" where
  "load_data c s f =
     (case f of
        Absent \<Rightarrow> Returned (s, None)
      | Unreadable e \<Rightarrow>
          (if e = JSONDecodeError \<or> e = KeyError then Returned (s, Some e) else Raised e)
      | Document data \<Rightarrow>
          (case load_document c s data of
             Raised e \<Rightarrow>
               (if e = JSONDecodeError \<or> e = KeyError then Returned (s, Some e) else Raised e)
           | Untyped \<Rightarrow> Untyped
           | Returned s' \<Rightarrow> Returned (s', None)))"

text \<open>\<^verbatim>\<open>FinanceTracker.__init__\<close>\<close>

definition FinanceTracker_init :: "clock \<Rightarrow> data_file \<Rightarrow> (store \<times> error option) outcome" where
  "FinanceTracker_init c f = load_data c initial_store f"

subsection \<open>add\_transaction and delete\_transaction\<close>

text \<open>
  Each returns its result, the store and the file after the call. On an exception the
  store and the file are those at the \<^verbatim>\<open>raise\<close>.
\<close>

definition add_transaction ::
  "clock \<Rightarrow> store \<Rightarrow> disk \<Rightarrow> real \<Rightarrow> string \<Rightarrow> string \<Rightarrow> string \<Rightarrow> string option
     \<Rightarrow> (error + Transaction) \<times> store \<times> disk" where
  "add_transaction c s d amt cat descr ttype dt =
     (if lower ttype \<notin> set [''income'', ''expense'']
      then (Inl ValueError, s, d)
      else
        let k = lower ttype;
            v = (if cat \<notin> set (cats_of (categories s) k)
                 then set_cats k (cats_of (categories s) k @ [cat]) (categories s)
                 else categories s);
            t = Transaction_init c amt cat descr ttype dt;
            s' = \<lparr> transactions = transactions s @ [t], categories = v \<rparr>
        in (Inr t, s', save_data s' d))"

definition delete_transaction :: "store \<Rightarrow> disk \<Rightarrow> int \<Rightarrow> bool \<times> store \<times> disk" where
  "delete_transaction s d transaction_id =
     (let original_length = length (transactions s);
          s' = s\<lparr> transactions := filter (\<lambda>t. id t \<noteq> transaction_id) (transactions s) \<rparr>
      in if length (transactions s') < original_length
         then (True, s', save_data s' d)
         else (False, s', d))"

section \<open>Queries\<close>

text \<open>
  \<^verbatim>\<open>sorted(xs, key=f, reverse=True)\<close>: descending and stable, equal keys stay in
  their original order.
\<close>

definition sorted_reverse :: "('a \<Rightarrow> 'k::linorder) \<Rightarrow> 'a list \<Rightarrow> 'a list" where
  "sorted_reverse f xs = rev (sort_key f (rev xs))"

text \<open>
  \<^verbatim>\<open>get_transactions\<close>. Each \<^verbatim>\<open>if arg:\<close> tests truthiness, so the filter is
  applied when the argument is a non-empty string.
\<close>

definition get_transactions ::
  "store \<Rightarrow> string option \<Rightarrow> string option \<Rightarrow> string option \<Rightarrow> string option
     \<Rightarrow> Transaction list" where
  "get_transactions s start_date end_date cat ttype =
     (let filtered = transactions s;
          filtered = (case start_date of
                        None \<Rightarrow> filtered
                      | Some sd \<Rightarrow> if sd = [] then filtered
                                  else filter (\<lambda>t. sd \<le> date t) filtered);
          filtered = (case end_date of
                        None \<Rightarrow> filtered
                      | Some ed \<Rightarrow> if ed = [] then filtered
                                  else filter (\<lambda>t. date t \<le> ed) filtered);
          filtered = (case cat of
                        None \<Rightarrow> filtered
                      | Some cn \<Rightarrow> if cn = [] then filtered
                                  else filter (\<lambda>t. lower (category t) = lower cn) filtered);
          filtered = (case ttype of
                        None \<Rightarrow> filtered
                      | Some tt \<Rightarrow> if tt = [] then filtered
                                  else filter (\<lambda>t. transaction_type t = lower tt) filtered)
      in sorted_reverse date filtered)"







section \<open>Report\<close>

definition upper_char :: "char \<Rightarrow> char" where
  "upper_char c =
     (if CHR ''a'' \<le> c \<and> c \<le> CHR ''z'' then char_of (of_char c - (32::nat)) else c)"

definition upper :: "string \<Rightarrow> string" where
  "upper s = map upper_char s"





section \<open>Sample states\<close>

text \<open>A store in which two entries carry the same id, as two entries created within
  the same microsecond reading would.\<close>

definition two_with_same_id :: store where
  "two_with_same_id =
     \<lparr> transactions =
         [\<lparr>id = 7, amount = 20, category = ''Food'', description = ''lunch'',
           transaction_type = ''expense'', date = ''2024-02-15''\<rparr>,
          \<lparr>id = 7, amount = 1000, category = ''Salary'', description = ''pay'',
           transaction_type = ''income'', date = ''2024-02-16''\<rparr>],
       categories = \<lparr> income = default_income, expense = default_expense \<rparr> \<rparr>"

section \<open>Predicates of the specification\<close>

text \<open>
  A vocabulary \<open>v'\<close> keeps a vocabulary \<open>v\<close> when each of its two lists holds
  every category the corresponding list of \<open>v\<close> holds; it covers the defaults when
  it keeps the two default lists of \<^verbatim>\<open>__init__\<close>.
\<close>

definition vocabulary_kept :: "vocabulary \<Rightarrow> vocabulary \<Rightarrow> bool" where
  "vocabulary_kept v v' =
     (set (income v) \<subseteq> set (income v') \<and> set (expense v) \<subseteq> set (expense v'))"

definition covers_defaults :: "vocabulary \<Rightarrow> bool" where
  "covers_defaults v =
     (set default_income \<subseteq> set (income v) \<and> set default_expense \<subseteq> set (expense v))"

text \<open>A clock reading for the examples.\<close>

definition noon :: clock where
  "noon = \<lparr> timestamp = 1709294400.25, days_ago = (\<lambda>n. ''2024-03-01'') \<rparr>"

text \<open>
  What \<^verbatim>\<open>Transaction.__init__\<close> guarantees of the object it builds: the amount is an
  absolute value, the type is in lowercase, and the date is not empty (an empty one is
  replaced by the current date).
\<close>

definition well_formed :: "Transaction \<Rightarrow> bool" where
  "well_formed t =
     (0 \<le> amount t \<and> lower (transaction_type t) = transaction_type t \<and> date t \<noteq> [])"

text \<open>
  The entries a query asks for: each of the four conditions binds when its argument is
  given and is not the empty string. The kind asked for is read in its lowercase form.
\<close>

definition selected ::
  "string option \<Rightarrow> string option \<Rightarrow> string option \<Rightarrow> string option \<Rightarrow> Transaction \<Rightarrow> bool" where
  "selected start_date end_date cat ttype t =
     ((case start_date of None \<Rightarrow> True | Some sd \<Rightarrow> sd = [] \<or> sd \<le> date t)
      \<and> (case end_date of None \<Rightarrow> True | Some ed \<Rightarrow> ed = [] \<or> date t \<le> ed)
      \<and> (case cat of None \<Rightarrow> True | Some cn \<Rightarrow> cn = [] \<or> lower (category t) = lower cn)
      \<and> (case ttype of None \<Rightarrow> True | Some tt \<Rightarrow> tt = [] \<or> transaction_type t = lower tt))"

text \<open>Two expenses, one dated before February 2024 and one within it.\<close>

definition winter_ledger :: store where
  "winter_ledger =
     \<lparr> transactions =
         [\<lparr>id = 1, amount = 12, category = ''Food'', description = ''bread'',
           transaction_type = ''expense'', date = ''2024-01-31''\<rparr>,
          \<lparr>id = 2, amount = 40, category = ''Bills'', description = ''water'',
           transaction_type = ''expense'', date = ''2024-02-15''\<rparr>],
       categories = \<lparr> income = default_income, expense = default_expense \<rparr> \<rparr>"

section \<open>Reading a report\<close>




text \<open>Every entry is an income or an expense, as the entries \<^verbatim>\<open>add_transaction\<close> creates are.\<close>

definition valid_kinds :: "store \<Rightarrow> bool" where
  "valid_kinds s =
     (\<forall>t \<in> set (transactions s). transaction_type t = ''income'' \<or> transaction_type t = ''expense'')"


section \<open>Properties\<close>

subsection \<open>Evaluation and sorting lemmas\<close>

lemmas str_eval = lower_def lower_char_def upper_def upper_char_def char_of_def bit_Suc_0_iff

lemma set_sorted_reverse: "set (sorted_reverse f xs) = set xs"
  by (simp add: sorted_reverse_def)

lemma mset_sorted_reverse: "mset (sorted_reverse f xs) = mset xs"
  by (simp add: sorted_reverse_def)

lemma sorted_reverse_descending: "sorted_wrt (\<lambda>a b. f b \<le> f a) (sorted_reverse f xs)"
proof -
  have "sorted (map f (sort_key f (rev xs)))" by (rule sorted_sort_key)
  then have "sorted_wrt (\<lambda>a b. f a \<le> f b) (sort_key f (rev xs))"
    by (simp only: sorted_map)
  then show ?thesis
    by (simp only: sorted_reverse_def sorted_wrt_rev)
qed

lemma get_transactions_unfiltered:
  "get_transactions s None None None None = sorted_reverse date (transactions s)"
  by (simp add: get_transactions_def)

subsection \<open>Identifiers\<close>

text \<open>
  Claim C10. Every id assigned when an entry is created is a non-negative integer below
  1,000,000, whatever the clock reads: \<^verbatim>\<open>_generate_id\<close> reduces the truncated
  timestamp modulo 1,000,000, and \<^verbatim>\<open>Transaction.__init__\<close> stores that value.
\<close>

theorem generate_id_range:
  "0 \<le> generate_id c \<and> generate_id c < 1000000
   \<and> id (Transaction_init c amt cat descr ttype dt) = generate_id c"
  by (simp add: generate_id_def Transaction_init_def)

subsection \<open>add\_transaction\<close>

text \<open>
  Claim C3. When the lowercased kind is neither \<open>income\<close> nor \<open>expense\<close>,
  \<^verbatim>\<open>add_transaction\<close> raises \<open>ValueError\<close> (the spec's InvalidKind) and the
  store and the file are exactly those before the call: no entry is added, no category
  is added to either vocabulary, nothing is saved.
\<close>

theorem add_invalid_kind:
  assumes "lower ttype \<noteq> ''income''" and "lower ttype \<noteq> ''expense''"
  shows "add_transaction c s d amt cat descr ttype dt = (Inl ValueError, s, d)"
  using assms by (simp add: add_transaction_def)


theorem add_invalid_kind_witness:
  "lower ''transfer'' \<noteq> ''income'' \<and> lower ''transfer'' \<noteq> ''expense''
   \<and> add_transaction \<lparr>timestamp = 0, days_ago = (\<lambda>n. ''2024-03-01'')\<rparr> initial_store
        \<lparr>content = Absent, writes = 0\<rparr> 12 ''Food'' ''lunch'' ''transfer'' None
      = (Inl ValueError, initial_store, \<lparr>content = Absent, writes = 0\<rparr>)"
proof -
  have a: "lower ''transfer'' \<noteq> ''income''" by (simp add: str_eval)
  have b: "lower ''transfer'' \<noteq> ''expense''" by (simp add: str_eval)
  show ?thesis using a b add_invalid_kind [OF a b] by simp
qed

text \<open>
  Claim C9. The kind is accepted whatever its letter case: whenever its lowercase form
  is \<open>income\<close> or \<open>expense\<close> the call succeeds, and the kind stored in the
  new entry is that lowercase form, so it equals one of the two strings exactly.
\<close>

theorem add_kind_case_insensitive:
  assumes "lower ttype = ''income'' \<or> lower ttype = ''expense''"
  shows "\<exists>t s' d'. add_transaction c s d amt cat descr ttype dt = (Inr t, s', d')
           \<and> transaction_type t = lower ttype
           \<and> (transaction_type t = ''income'' \<or> transaction_type t = ''expense'')
           \<and> t \<in> set (transactions s')"
  using assms by (auto simp add: add_transaction_def Let_def Transaction_init_def)

theorem add_kind_case_insensitive_witness:
  "(lower ''EXPENSE'' = ''income'' \<or> lower ''EXPENSE'' = ''expense'')
   \<and> (\<exists>t s' d'. add_transaction \<lparr>timestamp = 0, days_ago = (\<lambda>n. ''2024-03-01'')\<rparr> initial_store
        \<lparr>content = Absent, writes = 0\<rparr> 12 ''Food'' ''lunch'' ''EXPENSE'' None = (Inr t, s', d')
        \<and> transaction_type t = ''expense'')"
proof -
  have a: "lower ''EXPENSE'' = ''income'' \<or> lower ''EXPENSE'' = ''expense''"
    by (simp add: str_eval)
  have b: "lower ''EXPENSE'' = ''expense''" by (simp add: str_eval)
  from add_kind_case_insensitive [OF a] obtain t s' d' where
    "add_transaction \<lparr>timestamp = 0, days_ago = (\<lambda>n. ''2024-03-01'')\<rparr> initial_store
        \<lparr>content = Absent, writes = 0\<rparr> 12 ''Food'' ''lunch'' ''EXPENSE'' None = (Inr t, s', d')"
    and "transaction_type t = lower ''EXPENSE''"
    by blast
  with a b show ?thesis by auto
qed

text \<open>
  Claim C5. A valid call returns an entry whose amount is the absolute value of the
  input, whose id is the generated one, whose date is the given one or the current
  date when none (or an empty one) is given; the entry is appended to the collection and
  the file is saved; an unfiltered \<^verbatim>\<open>get_transactions\<close> then lists that very entry,
  with its id, category, description, kind and date; and the vocabulary of the kind
  holds the category afterwards, together with everything it held before.
\<close>

theorem add_valid:
  assumes "lower ttype = ''income'' \<or> lower ttype = ''expense''"
  shows "\<exists>t s' d'. add_transaction c s d amt cat descr ttype dt = (Inr t, s', d')
           \<and> amount t = \<bar>amt\<bar>
           \<and> id t = generate_id c
           \<and> date t = (case dt of None \<Rightarrow> today c | Some x \<Rightarrow> if x = [] then today c else x)
           \<and> category t = cat \<and> description t = descr \<and> transaction_type t = lower ttype
           \<and> transactions s' = transactions s @ [t]
           \<and> t \<in> set (get_transactions s' None None None None)
           \<and> set (cats_of (categories s') (lower ttype))
               = insert cat (set (cats_of (categories s) (lower ttype)))
           \<and> d' = save_data s' d"
proof -
  define t where "t = Transaction_init c amt cat descr ttype dt"
  define v where "v = (if cat \<notin> set (cats_of (categories s) (lower ttype))
                 then set_cats (lower ttype) (cats_of (categories s) (lower ttype) @ [cat]) (categories s)
                 else categories s)"
  define s' where "s' = \<lparr> transactions = transactions s @ [t], categories = v \<rparr>"
  have run: "add_transaction c s d amt cat descr ttype dt = (Inr t, s', save_data s' d)"
    using assms by (auto simp add: add_transaction_def Let_def t_def v_def s'_def)
  have fields: "amount t = \<bar>amt\<bar>" "id t = generate_id c" "category t = cat"
    "description t = descr" "transaction_type t = lower ttype"
    "date t = (case dt of None \<Rightarrow> today c | Some x \<Rightarrow> if x = [] then today c else x)"
    by (simp_all add: t_def Transaction_init_def)
  have listed: "t \<in> set (get_transactions s' None None None None)"
    by (simp add: get_transactions_unfiltered set_sorted_reverse s'_def)
  have vocab: "set (cats_of (categories s') (lower ttype))
               = insert cat (set (cats_of (categories s) (lower ttype)))"
    using assms by (auto simp add: s'_def v_def cats_of_def set_cats_def)
  have "transactions s' = transactions s @ [t]" by (simp add: s'_def)
  with run fields listed vocab show ?thesis by blast
qed

theorem add_valid_witness:
  "(lower ''expense'' = ''income'' \<or> lower ''expense'' = ''expense'')
   \<and> (\<exists>t s' d'. add_transaction \<lparr>timestamp = 0, days_ago = (\<lambda>n. ''2024-03-01'')\<rparr> initial_store
          \<lparr>content = Absent, writes = 0\<rparr> (- 12.5) ''Gym'' ''monthly fee'' ''expense'' None
            = (Inr t, s', d')
        \<and> amount t = 12.5 \<and> date t = ''2024-03-01''
        \<and> transactions s' = [t]
        \<and> ''Gym'' \<in> set (cats_of (categories s') ''expense''))"
proof -
  have a: "lower ''expense'' = ''income'' \<or> lower ''expense'' = ''expense''"
    by (simp add: str_eval)
  have b: "lower ''expense'' = ''expense''" by (simp add: str_eval)
  from add_valid [OF a, of "\<lparr>timestamp = 0, days_ago = (\<lambda>n. ''2024-03-01'')\<rparr>" initial_store
      "\<lparr>content = Absent, writes = 0\<rparr>" "- 12.5" "''Gym''" "''monthly fee''" None]
  obtain t s' d' where
    r: "add_transaction \<lparr>timestamp = 0, days_ago = (\<lambda>n. ''2024-03-01'')\<rparr> initial_store
          \<lparr>content = Absent, writes = 0\<rparr> (- 12.5) ''Gym'' ''monthly fee'' ''expense'' None
            = (Inr t, s', d')"
    and am: "amount t = \<bar>- 12.5\<bar>"
    and dt: "date t = (case None of None \<Rightarrow> today \<lparr>timestamp = 0, days_ago = (\<lambda>n. ''2024-03-01'')\<rparr>
                        | Some x \<Rightarrow> if x = [] then today \<lparr>timestamp = 0, days_ago = (\<lambda>n. ''2024-03-01'')\<rparr> else x)"
    and tr: "transactions s' = transactions initial_store @ [t]"
    and vo: "set (cats_of (categories s') (lower ''expense''))
               = insert ''Gym'' (set (cats_of (categories initial_store) (lower ''expense'')))"
    by blast
  have "amount t = 12.5" using am by simp
  moreover have "date t = ''2024-03-01''" using dt by (simp add: today_def)
  moreover have "transactions s' = [t]" using tr by (simp add: initial_store_def)
  moreover have "''Gym'' \<in> set (cats_of (categories s') ''expense'')" using vo b by simp
  ultimately show ?thesis using a r by blast
qed

subsection \<open>delete\_transaction\<close>

lemma length_filter_distinct_id:
  "distinct (map id ts) \<Longrightarrow> i \<in> id ` set ts
     \<Longrightarrow> Suc (length (filter (\<lambda>t. id t \<noteq> i) ts)) = length ts"
proof (induction ts)
  case Nil
  then show ?case by simp
next
  case (Cons t ts)
  show ?case
  proof (cases "id t = i")
    case True
    with Cons.prems have "i \<notin> id ` set ts" by auto
    then have "filter (\<lambda>t. id t \<noteq> i) ts = ts" by (auto simp: filter_id_conv)
    with True show ?thesis by simp
  next
    case False
    with Cons show ?thesis by auto
  qed
qed

lemma filter_length_less_iff:
  "length (filter (\<lambda>t. id t \<noteq> i) ts) < length ts \<longleftrightarrow> i \<in> id ` set ts"
proof
  assume "length (filter (\<lambda>t. id t \<noteq> i) ts) < length ts"
  then have "filter (\<lambda>t. id t \<noteq> i) ts \<noteq> ts" by auto
  then show "i \<in> id ` set ts" by (auto simp: filter_id_conv)
next
  assume "i \<in> id ` set ts"
  then obtain t where "t \<in> set ts" and "\<not> id t \<noteq> i" by auto
  then show "length (filter (\<lambda>t. id t \<noteq> i) ts) < length ts"
    by (rule length_filter_less)
qed

text \<open>
  Claim C1, as amended. \<^verbatim>\<open>delete_transaction\<close> keeps exactly the entries whose id
  differs from the given one, so it removes every entry with that id, and returns true
  exactly when there was at least one. The file is rewritten only in that case. When no
  entry has the id the result is false and the store and the file are unchanged. When
  the ids of the store are pairwise distinct and the id is present, exactly one entry
  is removed.
\<close>

theorem delete_transaction_removes_all:
  "delete_transaction s d i =
     (i \<in> id ` set (transactions s),
      s\<lparr>transactions := filter (\<lambda>t. id t \<noteq> i) (transactions s)\<rparr>,
      if i \<in> id ` set (transactions s)
      then save_data (s\<lparr>transactions := filter (\<lambda>t. id t \<noteq> i) (transactions s)\<rparr>) d
      else d)
   \<and> (i \<notin> id ` set (transactions s) \<longrightarrow>
        s\<lparr>transactions := filter (\<lambda>t. id t \<noteq> i) (transactions s)\<rparr> = s)
   \<and> (i \<in> id ` set (transactions s) \<and> distinct (map id (transactions s)) \<longrightarrow>
        Suc (length (filter (\<lambda>t. id t \<noteq> i) (transactions s))) = length (transactions s))"
proof (intro conjI impI)
  show "delete_transaction s d i =
     (i \<in> id ` set (transactions s),
      s\<lparr>transactions := filter (\<lambda>t. id t \<noteq> i) (transactions s)\<rparr>,
      if i \<in> id ` set (transactions s)
      then save_data (s\<lparr>transactions := filter (\<lambda>t. id t \<noteq> i) (transactions s)\<rparr>) d
      else d)"
    by (simp add: delete_transaction_def Let_def filter_length_less_iff)
next
  assume "i \<notin> id ` set (transactions s)"
  then have "filter (\<lambda>t. id t \<noteq> i) (transactions s) = transactions s"
    by (auto simp: filter_id_conv)
  then show "s\<lparr>transactions := filter (\<lambda>t. id t \<noteq> i) (transactions s)\<rparr> = s" by simp
next
  assume "i \<in> id ` set (transactions s) \<and> distinct (map id (transactions s))"
  then show "Suc (length (filter (\<lambda>t. id t \<noteq> i) (transactions s))) = length (transactions s)"
    by (simp add: length_filter_distinct_id)
qed

text \<open>
  Claim C1 as stated fails where two entries share an id: one call removes both.
\<close>

theorem delete_removes_two_counterexample:
  "fst (delete_transaction two_with_same_id \<lparr>content = Absent, writes = 0\<rparr> 7) = True
   \<and> length (transactions two_with_same_id) = 2
   \<and> length (transactions (fst (snd (delete_transaction two_with_same_id
                \<lparr>content = Absent, writes = 0\<rparr> 7)))) = 0"
  by (simp add: delete_transaction_def two_with_same_id_def Let_def)

theorem delete_transaction_removes_all_witness:
  "7 \<in> id ` set (transactions two_with_same_id)
   \<and> 8 \<notin> id ` set (transactions two_with_same_id)
   \<and> delete_transaction two_with_same_id \<lparr>content = Absent, writes = 0\<rparr> 8
       = (False, two_with_same_id, \<lparr>content = Absent, writes = 0\<rparr>)
   \<and> fst (delete_transaction two_with_same_id \<lparr>content = Absent, writes = 0\<rparr> 7) = True"
proof -
  have a: "7 \<in> id ` set (transactions two_with_same_id)" by (simp add: two_with_same_id_def)
  have b: "8 \<notin> id ` set (transactions two_with_same_id)" by (simp add: two_with_same_id_def)
  show ?thesis
    using a b delete_transaction_removes_all [of two_with_same_id "\<lparr>content = Absent, writes = 0\<rparr>" 8]
      delete_transaction_removes_all [of two_with_same_id "\<lparr>content = Absent, writes = 0\<rparr>" 7]
    by simp
qed

subsection \<open>Category vocabularies\<close>

lemma vocabulary_kept_refl: "vocabulary_kept v v"
  by (simp add: vocabulary_kept_def)

lemma vocabulary_kept_trans:
  "vocabulary_kept v v' \<Longrightarrow> vocabulary_kept v' v'' \<Longrightarrow> vocabulary_kept v v''"
  by (auto simp add: vocabulary_kept_def)

lemma covers_defaults_kept:
  "covers_defaults v \<Longrightarrow> vocabulary_kept v v' \<Longrightarrow> covers_defaults v'"
  by (auto simp add: vocabulary_kept_def covers_defaults_def)

lemma covers_defaults_initial: "covers_defaults (categories initial_store)"
  by (simp add: covers_defaults_def initial_store_def)

lemma merge_categories_kept:
  "merge_categories old cats = Returned xs \<Longrightarrow> set old \<subseteq> set xs"
  by (auto simp add: merge_categories_def split: json.splits if_splits option.splits)

lemma set_cats_kept:
  "set (cats_of v k) \<subseteq> set xs \<Longrightarrow> vocabulary_kept v (set_cats k xs v)"
  by (auto simp add: vocabulary_kept_def set_cats_def cats_of_def)

lemma merge_items_kept:
  "merge_items kvs v = Returned v' \<Longrightarrow> vocabulary_kept v v'"
proof (induction kvs v arbitrary: v' rule: merge_items.induct)
  case (1 v)
  then show ?case by (simp add: vocabulary_kept_refl)
next
  case (2 k cats rest v)
  show ?case
  proof (cases "has_key k")
    case False
    with 2 show ?thesis by simp
  next
    case True
    show ?thesis
    proof (cases "merge_categories (cats_of v k) cats")
      case (Returned xs)
      with True "2.prems" have rest: "merge_items rest (set_cats k xs v) = Returned v'" by simp
      have "vocabulary_kept v (set_cats k xs v)"
        using Returned by (intro set_cats_kept merge_categories_kept)
      moreover have "vocabulary_kept (set_cats k xs v) v'"
        using "2.IH"(1) [OF True Returned rest] .
      ultimately show ?thesis by (rule vocabulary_kept_trans)
    next
      case (Raised e)
      with True "2.prems" show ?thesis by simp
    next
      case Untyped
      with True "2.prems" show ?thesis by (simp split: outcome.splits)
    qed
  qed
qed

lemma load_categories_kept:
  "load_categories data v = Returned v' \<Longrightarrow> vocabulary_kept v v'"
  by (auto simp add: load_categories_def attempt_def merge_items_kept split: sum.splits)

lemma load_document_kept:
  "load_document c s data = Returned s' \<Longrightarrow> vocabulary_kept (categories s) (categories s')"
  by (auto simp add: load_document_def attempt_def load_categories_kept
        split: sum.splits outcome.splits)

lemma load_data_kept:
  "load_data c s f = Returned (s', r) \<Longrightarrow> vocabulary_kept (categories s) (categories s')"
  by (auto simp add: load_data_def load_document_kept vocabulary_kept_refl
        split: data_file.splits outcome.splits if_splits)

lemma add_transaction_kept:
  "vocabulary_kept (categories s)
     (categories (fst (snd (add_transaction c s d amt cat descr ttype dt))))"
  by (auto simp add: add_transaction_def Let_def vocabulary_kept_def set_cats_def cats_of_def)

lemma delete_transaction_kept:
  "categories (fst (snd (delete_transaction s d i))) = categories s"
  by (simp add: delete_transaction_def Let_def)

text \<open>
  Claim C8. The store that \<^verbatim>\<open>__init__\<close> returns covers the default lists.
  \<^verbatim>\<open>load_data\<close>, \<^verbatim>\<open>add_transaction\<close> (whether it succeeds or raises) and
  \<^verbatim>\<open>delete_transaction\<close> never drop a category: each vocabulary after the call holds
  everything it held before, so a store that covers the defaults still does.
\<close>

theorem vocabularies_only_grow:
  "(\<forall>s' r. FinanceTracker_init c f = Returned (s', r) \<longrightarrow> covers_defaults (categories s'))
   \<and> (\<forall>s' r. load_data c s f = Returned (s', r) \<longrightarrow>
         vocabulary_kept (categories s) (categories s')
         \<and> (covers_defaults (categories s) \<longrightarrow> covers_defaults (categories s')))
   \<and> vocabulary_kept (categories s)
        (categories (fst (snd (add_transaction c s d amt cat descr ttype dt))))
   \<and> (covers_defaults (categories s) \<longrightarrow>
        covers_defaults (categories (fst (snd (add_transaction c s d amt cat descr ttype dt)))))
   \<and> categories (fst (snd (delete_transaction s d i))) = categories s"
proof (intro conjI allI impI)
  fix s' r
  assume "FinanceTracker_init c f = Returned (s', r)"
  then have "vocabulary_kept (categories initial_store) (categories s')"
    unfolding FinanceTracker_init_def by (rule load_data_kept)
  with covers_defaults_initial show "covers_defaults (categories s')"
    by (rule covers_defaults_kept)
next
  fix s' r
  assume "load_data c s f = Returned (s', r)"
  then show "vocabulary_kept (categories s) (categories s')" by (rule load_data_kept)
next
  fix s' r
  assume "load_data c s f = Returned (s', r)" and "covers_defaults (categories s)"
  then show "covers_defaults (categories s')"
    using covers_defaults_kept load_data_kept by blast
next
  show "vocabulary_kept (categories s)
        (categories (fst (snd (add_transaction c s d amt cat descr ttype dt))))"
    by (rule add_transaction_kept)
next
  assume "covers_defaults (categories s)"
  then show "covers_defaults (categories (fst (snd (add_transaction c s d amt cat descr ttype dt))))"
    using add_transaction_kept by (rule covers_defaults_kept)
next
  show "categories (fst (snd (delete_transaction s d i))) = categories s"
    by (rule delete_transaction_kept)
qed

theorem vocabularies_only_grow_witness:
  "FinanceTracker_init \<lparr>timestamp = 0, days_ago = (\<lambda>n. ''2024-03-01'')\<rparr> Absent
       = Returned (initial_store, None)
   \<and> covers_defaults (categories initial_store)
   \<and> covers_defaults (categories (fst (snd (add_transaction
        \<lparr>timestamp = 0, days_ago = (\<lambda>n. ''2024-03-01'')\<rparr> initial_store
        \<lparr>content = Absent, writes = 0\<rparr> 30 ''Gym'' ''monthly fee'' ''expense'' None))))
   \<and> ''Gym'' \<in> set (expense (categories (fst (snd (add_transaction
        \<lparr>timestamp = 0, days_ago = (\<lambda>n. ''2024-03-01'')\<rparr> initial_store
        \<lparr>content = Absent, writes = 0\<rparr> 30 ''Gym'' ''monthly fee'' ''expense'' None)))))"
proof -
  let ?c = "\<lparr>timestamp = 0, days_ago = (\<lambda>n. ''2024-03-01'')\<rparr>"
  let ?d = "\<lparr>content = Absent, writes = 0\<rparr>"
  note all = vocabularies_only_grow
    [of ?c Absent initial_store ?d 30 "''Gym''" "''monthly fee''" "''expense''" None 0]
  have a: "FinanceTracker_init ?c Absent = Returned (initial_store, None)"
    by (simp add: FinanceTracker_init_def load_data_def)
  have b: "covers_defaults (categories initial_store)"
    using a all by blast
  have c: "covers_defaults (categories (fst (snd (add_transaction ?c initial_store ?d
             30 ''Gym'' ''monthly fee'' ''expense'' None))))"
    using b all by blast
  have d: "''Gym'' \<in> set (expense (categories (fst (snd (add_transaction ?c initial_store ?d
             30 ''Gym'' ''monthly fee'' ''expense'' None)))))"
    by (simp add: add_transaction_def Let_def str_eval cats_of_def set_cats_def
          initial_store_def default_expense_def)
  show ?thesis using a b c d by blast
qed

subsection \<open>load\_data\<close>

text \<open>Which exceptions each step of loading can raise.\<close>

lemma subscript_raises: "subscript j k = Inl e \<Longrightarrow> e = KeyError \<or> e = TypeError"
  by (cases j) (auto split: option.splits)

lemma py_abs_raises: "py_abs j = Inl e \<Longrightarrow> e = TypeError"
  by (cases j) auto

lemma typed_transaction_never_raises: "typed_transaction c amt ttype i cat descr dt \<noteq> Raised e"
  by (simp add: typed_transaction_def split: option.splits)

lemma from_dict_raises:
  "from_dict c j = Raised e \<Longrightarrow> e = KeyError \<or> e = TypeError \<or> e = AttributeError"
  unfolding from_dict_def attempt_def
  by (auto split: sum.splits json.splits dest: subscript_raises py_abs_raises
        simp add: typed_transaction_never_raises)

lemma from_dicts_raises:
  "from_dicts c js = Raised e \<Longrightarrow> e = KeyError \<or> e = TypeError \<or> e = AttributeError"
proof (induction js)
  case Nil
  then show ?case by simp
next
  case (Cons j js)
  then show ?case
    by (auto split: outcome.splits dest: from_dict_raises)
qed

lemma merge_categories_raises: "merge_categories old cats = Raised e \<Longrightarrow> e = TypeError"
  by (auto simp add: merge_categories_def split: json.splits if_splits option.splits)

lemma merge_items_raises: "merge_items kvs v = Raised e \<Longrightarrow> e = TypeError"
proof (induction kvs v rule: merge_items.induct)
  case (1 v)
  then show ?case by simp
next
  case (2 k cats rest v)
  then show ?case
    by (auto split: if_splits outcome.splits dest: merge_categories_raises)
qed

lemma dict_get_raises: "dict_get j k dflt = Inl e \<Longrightarrow> e = AttributeError"
  by (cases j) auto

lemma dict_items_raises: "dict_items j = Inl e \<Longrightarrow> e = AttributeError"
  by (cases j) auto

lemma iterate_raises: "iterate j = Inl e \<Longrightarrow> e = TypeError"
  by (cases j) auto

lemma load_categories_raises:
  "load_categories data v = Raised e \<Longrightarrow> e = TypeError \<or> e = AttributeError"
  by (auto simp add: load_categories_def attempt_def split: sum.splits
        dest: dict_get_raises dict_items_raises merge_items_raises)

lemma load_document_raises:
  "load_document c s data = Raised e \<Longrightarrow> e = KeyError \<or> e = TypeError \<or> e = AttributeError"
  by (auto simp add: load_document_def attempt_def split: sum.splits outcome.splits
        dest: dict_get_raises iterate_raises from_dicts_raises load_categories_raises)

lemma load_data_reports:
  "load_data c s f = Returned (s', Some e)
     \<Longrightarrow> s' = s \<and> (e = JSONDecodeError \<or> e = KeyError)"
  by (auto simp add: load_data_def split: data_file.splits outcome.splits if_splits)

lemma load_document_key_error:
  "dict_get data ''transactions'' (JArray []) = Inr tv \<Longrightarrow> iterate tv = Inr items
     \<Longrightarrow> from_dicts c items = Raised KeyError
     \<Longrightarrow> load_data c s (Document data) = Returned (s, Some KeyError)"
  by (simp add: load_data_def load_document_def attempt_def)

lemmas load_eval = FinanceTracker_init_def load_data_def load_document_def load_categories_def
  attempt_def from_dict_def typed_transaction_def date_arg_def Transaction_init_def
  merge_categories_def has_key_def cats_of_def set_cats_def initial_store_def today_def

text \<open>
  Claim C2. The claim holds of an absent file, of a file that is not JSON and of a
  transaction record that lacks a key: the handler of \<^verbatim>\<open>load_data\<close> reports the
  error and the store is the empty one with the default categories. It fails on the
  faults the handler does not name. A transactions field that is a number, an item that
  is not a record, an amount that is a string, a top level that is a list and a file
  whose bytes are not text each make \<^verbatim>\<open>FinanceTracker.__init__\<close> raise.
\<close>

theorem load_raises_on_uncaught_faults:
  "FinanceTracker_init noon Absent = Returned (initial_store, None)
   \<and> FinanceTracker_init noon (Unreadable JSONDecodeError)
       = Returned (initial_store, Some JSONDecodeError)
   \<and> FinanceTracker_init noon
        (Document (JObject [(''transactions'', JArray [JObject [(''id'', JInt 1)]])]))
       = Returned (initial_store, Some KeyError)
   \<and> FinanceTracker_init noon (Document (JObject [(''transactions'', JInt 5)])) = Raised TypeError
   \<and> FinanceTracker_init noon (Document (JObject [(''transactions'', JArray [JInt 1])]))
       = Raised TypeError
   \<and> FinanceTracker_init noon (Document (JObject [(''transactions'', JArray
         [JObject [(''id'', JInt 1), (''amount'', JString ''abc''), (''category'', JString ''Food''),
                   (''description'', JString ''lunch''), (''type'', JString ''expense''),
                   (''date'', JString ''2024-01-01'')]])]))
       = Raised TypeError
   \<and> FinanceTracker_init noon (Document (JArray [])) = Raised AttributeError
   \<and> FinanceTracker_init noon (Unreadable UnicodeDecodeError) = Raised UnicodeDecodeError"
  by (simp add: load_eval)

subsection \<open>Saving and loading\<close>

text \<open>
  Every entry of a store is built by \<^verbatim>\<open>Transaction.__init__\<close>, in
  \<^verbatim>\<open>add_transaction\<close> or in \<^verbatim>\<open>from_dict\<close>, so every entry is well formed, as long
  as the clock prints a date that is not empty.
\<close>

lemma lower_char_idem: "lower_char (lower_char c) = lower_char c"
  by (simp add: lower_char_def less_eq_char_def)

lemma lower_idem: "lower (lower s) = lower s"
  by (simp add: lower_def lower_char_idem)

lemma well_formed_init:
  "today c \<noteq> [] \<Longrightarrow> well_formed (Transaction_init c amt cat descr ttype dt)"
  by (simp add: well_formed_def Transaction_init_def lower_idem split: option.splits)

lemma date_arg_nonempty: "date_arg dt = Some (Some d) \<Longrightarrow> d \<noteq> []"
  by (cases dt) (auto simp add: date_arg_def split: if_splits)

lemma well_formed_from_dict:
  "today c \<noteq> [] \<Longrightarrow> from_dict c j = Returned t \<Longrightarrow> well_formed t"
  unfolding from_dict_def attempt_def typed_transaction_def
  by (auto split: sum.splits json.splits option.splits
        simp add: well_formed_def Transaction_init_def lower_idem dest: date_arg_nonempty)

lemma from_dicts_well_formed:
  "today c \<noteq> [] \<Longrightarrow> from_dicts c js = Returned ts \<Longrightarrow> \<forall>t\<in>set ts. well_formed t"
proof (induction js arbitrary: ts)
  case Nil
  then show ?case by simp
next
  case (Cons j js)
  then show ?case
    by (auto split: outcome.splits dest: well_formed_from_dict)
qed

lemma load_data_well_formed:
  assumes "today c \<noteq> []" and "\<forall>t\<in>set (transactions s). well_formed t"
    and "load_data c s f = Returned (s', r)"
  shows "\<forall>t\<in>set (transactions s'). well_formed t"
  using assms
  by (auto simp add: load_data_def load_document_def attempt_def
        split: data_file.splits outcome.splits sum.splits if_splits
        dest: from_dicts_well_formed)

lemma FinanceTracker_init_well_formed:
  "today c \<noteq> [] \<Longrightarrow> FinanceTracker_init c f = Returned (s, r)
     \<Longrightarrow> \<forall>t\<in>set (transactions s). well_formed t"
  unfolding FinanceTracker_init_def
  by (rule load_data_well_formed [where s = initial_store]) (simp_all add: initial_store_def)

lemma add_transaction_well_formed:
  "today c \<noteq> [] \<Longrightarrow> \<forall>t\<in>set (transactions s). well_formed t
     \<Longrightarrow> \<forall>t\<in>set (transactions (fst (snd (add_transaction c s d amt cat descr ttype dt)))).
           well_formed t"
  by (auto simp add: add_transaction_def Let_def well_formed_init)

lemma delete_transaction_well_formed:
  "\<forall>t\<in>set (transactions s). well_formed t
     \<Longrightarrow> \<forall>t\<in>set (transactions (fst (snd (delete_transaction s d i)))). well_formed t"
  by (simp add: delete_transaction_def Let_def)

text \<open>Reading back what was written.\<close>

lemma from_dict_to_dict:
  assumes "well_formed t"
  shows "from_dict c (to_dict t) = Returned t"
proof -
  have "Transaction_init c (amount t) (category t) (description t) (transaction_type t)
          (Some (date t)) \<lparr>id := id t\<rparr> = t"
    using assms by (simp add: Transaction_init_def well_formed_def)
  then show ?thesis
    using assms
    by (simp add: from_dict_def to_dict_def attempt_def typed_transaction_def date_arg_def
          well_formed_def)
qed

lemma from_dicts_to_dict:
  "\<forall>t\<in>set ts. well_formed t \<Longrightarrow> from_dicts c (map to_dict ts) = Returned ts"
  by (induction ts) (simp_all add: from_dict_to_dict)

lemma those_as_str: "those (map (as_str \<circ> JString) xs) = Some xs"
  by (induction xs) simp_all

lemma list_all_hashable_strings: "list_all hashable (map JString xs)"
  by (induction xs) simp_all

lemma merge_categories_strings:
  "merge_categories old (JArray (map JString xs)) = Returned (remdups (old @ xs))"
  by (simp add: merge_categories_def those_as_str list_all_hashable_strings)

lemma load_categories_saved:
  "load_categories (store_to_json s) v =
     Returned \<lparr> income = remdups (income v @ income (categories s)),
                expense = remdups (expense v @ expense (categories s)) \<rparr>"
  by (simp add: load_categories_def store_to_json_def attempt_def merge_categories_strings
        has_key_def cats_of_def set_cats_def)

lemma load_document_saved:
  assumes "\<forall>t\<in>set (transactions s). well_formed t"
  shows "load_document c s0 (store_to_json s) =
     Returned \<lparr> transactions = transactions s,
                categories = \<lparr> income = remdups (income (categories s0) @ income (categories s)),
                                expense = remdups (expense (categories s0) @ expense (categories s)) \<rparr> \<rparr>"
proof -
  have get: "dict_get (store_to_json s) ''transactions'' (JArray [])
               = Inr (JArray (map to_dict (transactions s)))"
    by (simp add: store_to_json_def)
  have items: "from_dicts c (map to_dict (transactions s)) = Returned (transactions s)"
    using assms by (rule from_dicts_to_dict)
  show ?thesis
    by (simp add: load_document_def attempt_def get items load_categories_saved)
qed

text \<open>
  Claim C6. Let the entries of a store be as the constructor builds them. After
  \<^verbatim>\<open>save_data\<close>, constructing a tracker from the file returns normally and reports no
  error; its entries are the original ones, in order and equal in every field; each of
  its two category lists holds the defaults and the original list's categories, so the
  original vocabularies are kept; and the \<^verbatim>\<open>type\<close> field written for an entry is the
  lowercase form of its type.
\<close>

theorem save_then_load_round_trip:
  assumes "\<forall>t\<in>set (transactions s). well_formed t"
  shows "\<exists>s'. FinanceTracker_init c (content (save_data s d)) = Returned (s', None)
           \<and> transactions s' = transactions s
           \<and> set (income (categories s')) = set default_income \<union> set (income (categories s))
           \<and> set (expense (categories s')) = set default_expense \<union> set (expense (categories s))
           \<and> vocabulary_kept (categories s) (categories s')
           \<and> map (\<lambda>t. subscript (to_dict t) ''type'') (transactions s)
               = map (\<lambda>t. Inr (JString (lower (transaction_type t)))) (transactions s)"
proof -
  let ?s' = "\<lparr> transactions = transactions s,
                categories = \<lparr> income = remdups (income (categories initial_store) @ income (categories s)),
                                expense = remdups (expense (categories initial_store) @ expense (categories s)) \<rparr> \<rparr>"
  have "load_document c initial_store (store_to_json s) = Returned ?s'"
    using assms by (rule load_document_saved)
  then have run: "FinanceTracker_init c (content (save_data s d)) = Returned (?s', None)"
    by (simp add: FinanceTracker_init_def load_data_def save_data_def)
  have kinds: "map (\<lambda>t. subscript (to_dict t) ''type'') (transactions s)
               = map (\<lambda>t. Inr (JString (lower (transaction_type t)))) (transactions s)"
    using assms by (simp add: to_dict_def well_formed_def)
  have "set (income (categories ?s')) = set default_income \<union> set (income (categories s))"
    and "set (expense (categories ?s')) = set default_expense \<union> set (expense (categories s))"
    and "vocabulary_kept (categories s) (categories ?s')"
    by (auto simp add: initial_store_def vocabulary_kept_def)
  with run kinds show ?thesis
    by (intro exI [of _ ?s']) simp
qed

theorem save_then_load_round_trip_witness:
  "list_all well_formed (transactions two_with_same_id)
   \<and> (\<exists>s'. FinanceTracker_init noon
              (content (save_data two_with_same_id \<lparr>content = Absent, writes = 0\<rparr>))
            = Returned (s', None)
        \<and> transactions s' = transactions two_with_same_id
        \<and> set (expense (categories s')) = set default_expense)"
proof -
  have wf: "\<forall>t\<in>set (transactions two_with_same_id). well_formed t"
    by (simp add: two_with_same_id_def well_formed_def str_eval)
  have cats: "expense (categories two_with_same_id) = default_expense"
    by (simp add: two_with_same_id_def)
  from wf have "list_all well_formed (transactions two_with_same_id)"
    by (simp add: list_all_iff)
  moreover have "\<exists>s'. FinanceTracker_init noon
              (content (save_data two_with_same_id \<lparr>content = Absent, writes = 0\<rparr>))
            = Returned (s', None)
        \<and> transactions s' = transactions two_with_same_id
        \<and> set (expense (categories s')) = set default_expense"
    using save_then_load_round_trip [OF wf, of noon "\<lparr>content = Absent, writes = 0\<rparr>"] cats
    by auto
  ultimately show ?thesis by (rule conjI)
qed

subsection \<open>get\_transactions\<close>

lemma optional_filter:
  "(case arg of None \<Rightarrow> xs | Some v \<Rightarrow> if v = [] then xs else filter (P v) xs)
     = filter (\<lambda>t. case arg of None \<Rightarrow> True | Some v \<Rightarrow> v = [] \<or> P v t) xs"
  by (cases arg) simp_all

lemma get_transactions_selected:
  "get_transactions s start_date end_date cat ttype
     = sorted_reverse date (filter (selected start_date end_date cat ttype) (transactions s))"
proof -
  have "filter (selected start_date end_date cat ttype) (transactions s)
      = filter (\<lambda>t. case ttype of None \<Rightarrow> True | Some tt \<Rightarrow> tt = [] \<or> transaction_type t = lower tt)
         (filter (\<lambda>t. case cat of None \<Rightarrow> True | Some cn \<Rightarrow> cn = [] \<or> lower (category t) = lower cn)
           (filter (\<lambda>t. case end_date of None \<Rightarrow> True | Some ed \<Rightarrow> ed = [] \<or> date t \<le> ed)
             (filter (\<lambda>t. case start_date of None \<Rightarrow> True | Some sd \<Rightarrow> sd = [] \<or> sd \<le> date t)
               (transactions s))))"
    unfolding filter_filter selected_def by (rule filter_cong) auto
  then show ?thesis
    by (simp only: get_transactions_def Let_def optional_filter)
qed

text \<open>
  Claim C4, as amended. For every store and every combination of the four optional
  arguments, \<^verbatim>\<open>get_transactions\<close> returns exactly the selected entries, each as often
  as the store holds it, sorted by date in descending order, entries of equal date in
  the order of the store. An argument binds when it is given and not empty. The function
  reads the store and returns a new list; it assigns nothing to the store.
\<close>

theorem get_transactions_keeps_selected:
  "get_transactions s start_date end_date cat ttype
     = sorted_reverse date (filter (selected start_date end_date cat ttype) (transactions s))
   \<and> mset (get_transactions s start_date end_date cat ttype)
       = filter_mset (selected start_date end_date cat ttype) (mset (transactions s))
   \<and> sorted_wrt (\<lambda>a b. date b \<le> date a) (get_transactions s start_date end_date cat ttype)"
  by (simp add: get_transactions_selected mset_sorted_reverse sorted_reverse_descending)

text \<open>
  Claim C4 as stated fails when an argument is given as the empty string: the test
  \<^verbatim>\<open>if category:\<close> takes it as absent. Asked for the empty category, or for dates up
  to the empty string, the query returns both entries of the store, although neither has
  that category and neither date is that early.
\<close>

theorem get_transactions_empty_argument_counterexample:
  "get_transactions two_with_same_id None None (Some '''') None
     = [\<lparr>id = 7, amount = 1000, category = ''Salary'', description = ''pay'',
          transaction_type = ''income'', date = ''2024-02-16''\<rparr>,
        \<lparr>id = 7, amount = 20, category = ''Food'', description = ''lunch'',
          transaction_type = ''expense'', date = ''2024-02-15''\<rparr>]
   \<and> lower ''Salary'' \<noteq> lower '''' \<and> lower ''Food'' \<noteq> lower ''''
   \<and> get_transactions two_with_same_id None (Some '''') None None
     = [\<lparr>id = 7, amount = 1000, category = ''Salary'', description = ''pay'',
          transaction_type = ''income'', date = ''2024-02-16''\<rparr>,
        \<lparr>id = 7, amount = 20, category = ''Food'', description = ''lunch'',
          transaction_type = ''expense'', date = ''2024-02-15''\<rparr>]
   \<and> \<not> ''2024-02-16'' \<le> '''' \<and> \<not> ''2024-02-15'' \<le> ''''"
  by (simp add: get_transactions_def two_with_same_id_def sorted_reverse_def lower_def)

theorem get_transactions_keeps_selected_witness:
  "get_transactions winter_ledger (Some ''2024-02-01'') (Some ''2024-02-29'') None None
     = [\<lparr>id = 2, amount = 40, category = ''Bills'', description = ''water'',
          transaction_type = ''expense'', date = ''2024-02-15''\<rparr>]
   \<and> get_transactions winter_ledger None None (Some ''FOOD'') (Some ''Expense'')
     = [\<lparr>id = 1, amount = 12, category = ''Food'', description = ''bread'',
          transaction_type = ''expense'', date = ''2024-01-31''\<rparr>]
   \<and> get_transactions winter_ledger None None None None
     = [\<lparr>id = 2, amount = 40, category = ''Bills'', description = ''water'',
          transaction_type = ''expense'', date = ''2024-02-15''\<rparr>,
        \<lparr>id = 1, amount = 12, category = ''Food'', description = ''bread'',
          transaction_type = ''expense'', date = ''2024-01-31''\<rparr>]"
  using get_transactions_keeps_selected
          [of winter_ledger "Some ''2024-02-01''" "Some ''2024-02-29''" None None]
        get_transactions_keeps_selected [of winter_ledger None None "Some ''FOOD''" "Some ''Expense''"]
        get_transactions_keeps_selected [of winter_ledger None None None None]
  by (simp add: selected_def winter_ledger_def sorted_reverse_def str_eval)

subsection \<open>generate\_report\<close>

text \<open>\<^verbatim>\<open>add_transaction\<close> and \<^verbatim>\<open>delete_transaction\<close> keep the kinds valid.\<close>

lemma add_transaction_valid_kinds:
  "valid_kinds s \<Longrightarrow> valid_kinds (fst (snd (add_transaction c s d amt cat descr ttype dt)))"
  by (auto simp add: valid_kinds_def add_transaction_def Let_def Transaction_init_def)

lemma delete_transaction_valid_kinds:
  "valid_kinds s \<Longrightarrow> valid_kinds (fst (snd (delete_transaction s d i)))"
  by (simp add: valid_kinds_def delete_transaction_def Let_def)
















end
